theory Spec2Isabelle
  imports Main
begin

section \<open>Artivus: a peer-to-peer chat demo (backend/peer.go)\<close>

text \<open>
  The program owns two pieces of control flow: the inbound handler \<open>handleStream\<close>
  and the function \<open>main\<close> (bootstrap, target selection, chat loop, final block).
  Everything else is done by collaborators (the libp2p host, the multiaddr parser, Go's
  \<open>bufio\<close> and \<open>strings\<close> packages). The collaborators are modelled by what the
  program can observe of them: the values their calls return. Go strings are byte
  sequences, here \<open>string\<close> (a list of 8-bit characters).
\<close>

type_synonym error = string
type_synonym peer_id = string
type_synonym multiaddr = string
type_synonym priv_key = string

subsection \<open>strings.TrimSpace\<close>

text \<open>
  \<open>strings.TrimSpace\<close> of Go's standard library removes all leading and trailing white
  space, as defined by Unicode, from a UTF-8 string. \<open>space_runes\<close> lists the UTF-8
  encodings of the code points with the property White_Space (what \<open>unicode.IsSpace\<close>
  accepts): U+0009..U+000D, U+0020, U+0085, U+00A0, U+1680, U+2000..U+200A, U+2028,
  U+2029, U+202F, U+205F, U+3000. Bytes that are not valid UTF-8 decode to U+FFFD, which
  is not white space, so trimming stops at them.
\<close>

definition space_runes :: "string list" where
  "space_runes =
    [[CHR 0x09], [CHR 0x0A], [CHR 0x0B], [CHR 0x0C], [CHR 0x0D], [CHR 0x20],
     [CHR 0xC2, CHR 0x85], [CHR 0xC2, CHR 0xA0],
     [CHR 0xE1, CHR 0x9A, CHR 0x80],
     [CHR 0xE2, CHR 0x80, CHR 0x80], [CHR 0xE2, CHR 0x80, CHR 0x81],
     [CHR 0xE2, CHR 0x80, CHR 0x82], [CHR 0xE2, CHR 0x80, CHR 0x83],
     [CHR 0xE2, CHR 0x80, CHR 0x84], [CHR 0xE2, CHR 0x80, CHR 0x85],
     [CHR 0xE2, CHR 0x80, CHR 0x86], [CHR 0xE2, CHR 0x80, CHR 0x87],
     [CHR 0xE2, CHR 0x80, CHR 0x88], [CHR 0xE2, CHR 0x80, CHR 0x89],
     [CHR 0xE2, CHR 0x80, CHR 0x8A],
     [CHR 0xE2, CHR 0x80, CHR 0xA8], [CHR 0xE2, CHR 0x80, CHR 0xA9],
     [CHR 0xE2, CHR 0x80, CHR 0xAF],
     [CHR 0xE2, CHR 0x81, CHR 0x9F],
     [CHR 0xE3, CHR 0x80, CHR 0x80]]"

text \<open>The number of bytes of the first pattern that the string starts with; 0 if none does.\<close>

primrec match_len :: "string list \<Rightarrow> string \<Rightarrow> nat" where
  "match_len [] s = 0"
| "match_len (p # ps) s = (if take (length p) s = p then length p else match_len ps s)"

text \<open>Strip patterns from the front for as long as one matches.\<close>

fun trim_prefixes :: "string list \<Rightarrow> string \<Rightarrow> string" where
  "trim_prefixes ps [] = []"
| "trim_prefixes ps (c # cs) =
     (if match_len ps (c # cs) = 0 then c # cs
      else trim_prefixes ps (drop (match_len ps (c # cs) - 1) cs))"

definition TrimLeft :: "string \<Rightarrow> string" where
  "TrimLeft s = trim_prefixes space_runes s"

definition TrimRight :: "string \<Rightarrow> string" where
  "TrimRight s = rev (trim_prefixes (map rev space_runes) (rev s))"

definition TrimSpace :: "string \<Rightarrow> string" where
  "TrimSpace s = TrimRight (TrimLeft s)"

subsection \<open>The inbound stream and bufio.Reader.ReadString\<close>

text \<open>
  What \<open>handleStream\<close> can observe of an inbound stream: the bytes the remote peer
  delivers, and the error that the read reports once those bytes are used up: \<open>EOF\<close>
  when the remote closed the stream, any other error (a reset, a timeout) as \<open>ReadFailed\<close>.
\<close>

datatype io_error = EOF | ReadFailed error

record reader =
  buf :: string
  err :: io_error

text \<open>
  \<open>split_delim d s\<close>: the bytes of \<open>s\<close> up to and including the first \<open>d\<close>, and the
  rest; \<open>None\<close> when \<open>s\<close> has no \<open>d\<close>.
\<close>

fun split_delim :: "char \<Rightarrow> string \<Rightarrow> (string \<times> string) option" where
  "split_delim d [] = None"
| "split_delim d (c # cs) =
     (if c = d then Some ([c], cs)
      else (case split_delim d cs of
              None \<Rightarrow> None
            | Some (l, rest) \<Rightarrow> Some (c # l, rest)))"

text \<open>
  \<open>ReadString\<close> (Go's \<open>bufio\<close>): reads until the first occurrence of the delimiter and
  returns the data up to and including it; if it meets an error before finding the
  delimiter, it returns the data read before the error and the error itself. The error
  is present if and only if the returned data does not end in the delimiter.
\<close>

definition ReadString :: "char \<Rightarrow> reader \<Rightarrow> (string \<times> io_error option) \<times> reader" where
  "ReadString delim r =
     (case split_delim delim (buf r) of
        Some (l, rest) \<Rightarrow> ((l, None), r\<lparr>buf := rest\<rparr>)
      | None \<Rightarrow> ((buf r, Some (err r)), r\<lparr>buf := []\<rparr>))"

subsection \<open>Console output and observable actions\<close>

text \<open>
  Each \<open>fmt.Print*\<close> call of the program is one constructor (with the values it
  formats), named after the text it prints; the line of peer.go is given on the right.
\<close>

datatype console =
    IncomingStreamOpened              \<comment> \<open>line 19\<close>
  | StreamClosed                      \<comment> \<open>line 24\<close>
  | Received string                   \<comment> \<open>line 27\<close>
  | PeerStarted                       \<comment> \<open>line 51\<close>
  | PeerID peer_id                    \<comment> \<open>line 52\<close>
  | ShareMultiaddr multiaddr peer_id  \<comment> \<open>line 54\<close>
  | EnterTarget                       \<comment> \<open>line 58\<close>
  | InvalidMultiaddr error            \<comment> \<open>line 67\<close>
  | FailedToParsePeerInfo error       \<comment> \<open>line 72\<close>
  | ConnectionFailed error            \<comment> \<open>line 79\<close>
  | ConnectedToPeer peer_id           \<comment> \<open>line 82\<close>
  | EnterMessage                      \<comment> \<open>line 87\<close>
  | FailedToOpenStream error          \<comment> \<open>line 96\<close>
  | FailedToSend error                \<comment> \<open>line 101\<close>
  | NoPeerConnected                   \<comment> \<open>line 105\<close>
  | Exiting                           \<comment> \<open>line 109\<close>

subsection \<open>handleStream (peer.go, lines 18 to 29)\<close>

text \<open>
  The loop of lines 21 to 28: a read that reports an error prints the closed notice and
  returns; a read without error prints the line and reads again. Every read without
  error consumes at least the delimiter, so the loop ends on every \<open>reader\<close>.
\<close>

function handleStream_loop :: "reader \<Rightarrow> console list" where
  "handleStream_loop r =
     (case ReadString (CHR 0x0A) r of
        ((str, Some e), r') \<Rightarrow> [StreamClosed]
      | ((str, None), r') \<Rightarrow> Received str # handleStream_loop r')"
  by pat_completeness auto

lemma split_delim_shorter: "split_delim d s = Some (l, rest) \<Longrightarrow> length rest < length s"
  by (induction s arbitrary: l) (auto split: if_splits option.splits)

termination handleStream_loop
  by (relation "measure (\<lambda>r. length (buf r))")
     (auto simp: ReadString_def split: option.splits dest: split_delim_shorter)

declare handleStream_loop.simps [simp del]

definition handleStream :: "reader \<Rightarrow> console list" where
  "handleStream s = IncomingStreamOpened # handleStream_loop s"

subsection \<open>The collaborators of main\<close>

text \<open>
  \<open>peer.AddrInfo\<close> is a peer identifier with its addresses. Of the libp2p host the
  program reads the identifier and the bound addresses.
\<close>

record AddrInfo =
  ID :: peer_id
  Addrs :: "multiaddr list"

record host =
  host_ID :: peer_id
  host_Addrs :: "multiaddr list"

text \<open>
  The answers of the collaborators, one field per call of \<open>main\<close>; \<open>Inl\<close> and
  \<open>Some\<close> carry the error of a call that fails. \<open>host_NewStream\<close> is asked with the
  number of streams requested before (the handle of the stream it opens),
  \<open>stream_Write\<close> with the handle and the bytes.
\<close>

record env =
  GenerateEd25519Key :: "error + priv_key"
  libp2p_New :: "priv_key \<Rightarrow> error + host"
  NewMultiaddr :: "string \<Rightarrow> error + multiaddr"
  AddrInfoFromP2pAddr :: "multiaddr \<Rightarrow> error + AddrInfo"
  host_Connect :: "AddrInfo \<Rightarrow> error option"
  host_NewStream :: "nat \<Rightarrow> peer_id \<Rightarrow> string \<Rightarrow> error option"
  stream_Write :: "nat \<Rightarrow> string \<Rightarrow> error option"

text \<open>What the process does to the outside, in the order it does it.\<close>

datatype action =
    Print console
  | SetStreamHandler string
  | Connect AddrInfo
  | NewStream peer_id string
  | Write nat string
  | Close nat

text \<open>
  The local variables of \<open>main\<close> that outlive a statement: the scanner on standard
  input, \<open>peerInfo\<close> (a pointer: \<open>None\<close> is nil), the number of streams requested so
  far, and the actions performed so far.

  The scanner is modelled by the lines it will still yield (\<open>bufio.ScanLines\<close>: each
  without its end-of-line marker). Once they are used up, \<open>Scan\<close> returns false, which
  the program ignores, and \<open>Text\<close> returns the empty string, again and again.
\<close>

record main_state =
  scanner :: "string list"
  peerInfo :: "AddrInfo option"
  opened :: nat
  trace :: "action list"

definition Scan_Text :: "string list \<Rightarrow> string \<times> string list" where
  "Scan_Text toks = (case toks of [] \<Rightarrow> ([], []) | t # ts \<Rightarrow> (t, ts))"

definition emit :: "action \<Rightarrow> main_state \<Rightarrow> main_state" where
  "emit a s = s\<lparr>trace := trace s @ [a]\<rparr>"

subsection \<open>main (peer.go, lines 31 to 111)\<close>

text \<open>Lines 49 to 55: the handler is registered and the host's identity is printed.\<close>

definition startup :: "host \<Rightarrow> string list \<Rightarrow> main_state" where
  "startup h input =
     \<lparr>scanner = input, peerInfo = None, opened = 0,
      trace = [SetStreamHandler ''/chat/1.0.0'', Print PeerStarted, Print (PeerID (host_ID h))]
              @ map (\<lambda>addr. Print (ShareMultiaddr addr (host_ID h))) (host_Addrs h)\<rparr>"

text \<open>Lines 58 to 83: target selection. \<open>Returned\<close> is a \<open>return\<close> from \<open>main\<close>.\<close>

datatype flow = Proceed | Returned

definition select_target :: "env \<Rightarrow> main_state \<Rightarrow> flow \<times> main_state" where
  "select_target e s0 =
     (let s1 = emit (Print EnterTarget) s0;
          (targetAddr, toks) = Scan_Text (scanner s1);
          s2 = s1\<lparr>scanner := toks\<rparr>
      in if targetAddr \<noteq> [] then
           (case NewMultiaddr e targetAddr of
              Inl er \<Rightarrow> (Returned, emit (Print (InvalidMultiaddr er)) s2)
            | Inr maddr \<Rightarrow>
                (case AddrInfoFromP2pAddr e maddr of
                   Inl er \<Rightarrow> (Returned, emit (Print (FailedToParsePeerInfo er)) s2)
                 | Inr info \<Rightarrow>
                     (let s3 = s2\<lparr>peerInfo := Some info\<rparr>;
                          s4 = emit (Connect info) s3
                      in case host_Connect e info of
                           Some er \<Rightarrow> (Returned, emit (Print (ConnectionFailed er)) s4)
                         | None \<Rightarrow> (Proceed, emit (Print (ConnectedToPeer (ID info))) s4))))
         else (Proceed, s2))"

text \<open>
  Lines 87 to 106: one iteration of the chat loop. \<open>peerInfo.ID\<close> dereferences the
  pointer, which panics in Go when the pointer is nil: \<open>NilDereference\<close>.
\<close>

datatype loop_ctl = Break | Continue | NilDereference

definition chat_iteration :: "env \<Rightarrow> main_state \<Rightarrow> loop_ctl \<times> main_state" where
  "chat_iteration e s0 =
     (let s1 = emit (Print EnterMessage) s0;
          (msg, toks) = Scan_Text (scanner s1);
          s2 = s1\<lparr>scanner := toks\<rparr>
      in if TrimSpace msg = ''exit'' then (Break, s2)
         else if peerInfo s2 \<noteq> None then
           (case peerInfo s2 of
              None \<Rightarrow> (NilDereference, s2)
            | Some info \<Rightarrow>
                (let sid = opened s2;
                     s3 = emit (NewStream (ID info) ''/chat/1.0.0'') (s2\<lparr>opened := Suc sid\<rparr>)
                 in case host_NewStream e sid (ID info) ''/chat/1.0.0'' of
                      Some er \<Rightarrow> (Continue, emit (Print (FailedToOpenStream er)) s3)
                    | None \<Rightarrow>
                        (let s4 = emit (Write sid (msg @ [CHR 0x0A])) s3;
                             s5 = (case stream_Write e sid (msg @ [CHR 0x0A]) of
                                     Some er \<Rightarrow> emit (Print (FailedToSend er)) s4
                                   | None \<Rightarrow> s4)
                         in (Continue, emit (Close sid) s5))))
         else (Continue, emit (Print NoPeerConnected) s2))"

text \<open>
  Lines 86 to 107: the loop runs until an iteration breaks. It need not end (standard
  input may never say exit), so it takes fuel: \<open>None\<close> is a loop still running when the
  fuel is used up. \<open>Inl\<close> is the state at a panic, \<open>Inr\<close> the state after the break.
\<close>

fun chat_loop :: "nat \<Rightarrow> env \<Rightarrow> main_state \<Rightarrow> (main_state + main_state) option" where
  "chat_loop 0 e s = None"
| "chat_loop (Suc n) e s =
     (case chat_iteration e s of
        (Break, s') \<Rightarrow> Some (Inr s')
      | (Continue, s') \<Rightarrow> chat_loop n e s'
      | (NilDereference, s') \<Rightarrow> Some (Inl s'))"

text \<open>
  How \<open>main\<close> ends: it panics (with the error of a failed bootstrap call, or on a nil
  pointer), it returns (the process exits), or it reaches the empty \<open>select\<close> of line
  110, which blocks forever: \<open>main\<close> never returns and the process stays alive.
\<close>

datatype panic = BootstrapError error | NilPointerDereference

datatype outcome = Panic panic | Return | BlocksForever

definition main :: "nat \<Rightarrow> env \<Rightarrow> string list \<Rightarrow> (outcome \<times> action list) option" where
  "main fuel e input =
     (case GenerateEd25519Key e of
        Inl er \<Rightarrow> Some (Panic (BootstrapError er), [])
      | Inr priv \<Rightarrow>
          (case libp2p_New e priv of
             Inl er \<Rightarrow> Some (Panic (BootstrapError er), [])
           | Inr h \<Rightarrow>
               (case select_target e (startup h input) of
                  (Returned, s) \<Rightarrow> Some (Return, trace s)
                | (Proceed, s) \<Rightarrow>
                    (case chat_loop fuel e s of
                       None \<Rightarrow> None
                     | Some (Inl s') \<Rightarrow> Some (Panic NilPointerDereference, trace s')
                     | Some (Inr s') \<Rightarrow> Some (BlocksForever, trace s' @ [Print Exiting])))))"

subsection \<open>Observations\<close>

text \<open>The line that the next \<open>scanner.Text()\<close> returns.\<close>

definition next_line :: "main_state \<Rightarrow> string" where
  "next_line s = fst (Scan_Text (scanner s))"

text \<open>The actions that a step from \<open>s\<close> to \<open>s'\<close> added.\<close>

definition new_actions :: "main_state \<Rightarrow> main_state \<Rightarrow> action list" where
  "new_actions s s' = drop (length (trace s)) (trace s')"

text \<open>
  The stream requests, the protocols a handler was registered for, the payloads written,
  and everything that is not console output.
\<close>

fun stream_requests :: "action list \<Rightarrow> (peer_id \<times> string) list" where
  "stream_requests [] = []"
| "stream_requests (NewStream p proto # as) = (p, proto) # stream_requests as"
| "stream_requests (a # as) = stream_requests as"

fun registered_protocols :: "action list \<Rightarrow> string list" where
  "registered_protocols [] = []"
| "registered_protocols (SetStreamHandler proto # as) = proto # registered_protocols as"
| "registered_protocols (a # as) = registered_protocols as"

fun written :: "action list \<Rightarrow> string list" where
  "written [] = []"
| "written (Write sid bytes # as) = bytes # written as"
| "written (a # as) = written as"

fun is_Print :: "action \<Rightarrow> bool" where
  "is_Print (Print c) = True"
| "is_Print a = False"

definition network_actions :: "action list \<Rightarrow> action list" where
  "network_actions as = filter (\<lambda>a. \<not> is_Print a) as"

text \<open>The state after at most \<open>k\<close> iterations of the chat loop (fewer if it left the loop).\<close>

fun chat_run :: "nat \<Rightarrow> env \<Rightarrow> main_state \<Rightarrow> main_state" where
  "chat_run 0 e s = s"
| "chat_run (Suc k) e s =
     (case chat_iteration e s of
        (Continue, s') \<Rightarrow> chat_run k e s'
      | (c, s') \<Rightarrow> s')"

text \<open>Collaborators for concrete runs: every call succeeds, but for the given answers
  of \<open>NewStream\<close> and \<open>Write\<close>.\<close>

definition test_env :: "error option \<Rightarrow> error option \<Rightarrow> env" where
  "test_env open_result write_result =
     \<lparr>GenerateEd25519Key = Inr ''key'',
      libp2p_New = (\<lambda>priv. Inr \<lparr>host_ID = ''QmSelf'', host_Addrs = [''/ip4/127.0.0.1/tcp/4001'']\<rparr>),
      NewMultiaddr = (\<lambda>a. if take 1 a = ''/'' then Inr a else Inl ''must begin with /''),
      AddrInfoFromP2pAddr =
        (\<lambda>m. if m = ''/ip4/10.0.0.2/tcp/4001/p2p/QmPeer''
             then Inr \<lparr>ID = ''QmPeer'', Addrs = [''/ip4/10.0.0.2/tcp/4001'']\<rparr>
             else if m = ''/ip4/10.0.0.3/tcp/4001/p2p/QmGone''
             then Inr \<lparr>ID = ''QmGone'', Addrs = [''/ip4/10.0.0.3/tcp/4001'']\<rparr>
             else Inl ''invalid p2p multiaddr''),
      host_Connect = (\<lambda>info. if ID info = ''QmPeer'' then None else Some ''dial failed''),
      host_NewStream = (\<lambda>n p proto. open_result),
      stream_Write = (\<lambda>sid bytes. write_result)\<rparr>"

text \<open>A peer target for concrete runs.\<close>

definition QmPeer :: AddrInfo where
  "QmPeer = \<lparr>ID = ''QmPeer'', Addrs = [''/ip4/10.0.0.2/tcp/4001'']\<rparr>"

text \<open>The state at the start of the chat loop with the given input left and target.\<close>

definition loop_state :: "string list \<Rightarrow> AddrInfo option \<Rightarrow> main_state" where
  "loop_state input target = \<lparr>scanner = input, peerInfo = target, opened = 0, trace = []\<rparr>"

section \<open>Properties\<close>

subsection \<open>Reading lines\<close>

lemma split_delim_None: "split_delim d s = None \<longleftrightarrow> d \<notin> set s"
  by (induction s) (auto split: option.splits)

lemma split_delim_Some:
  "split_delim d s = Some (l, rest) \<Longrightarrow> s = l @ rest \<and> l \<noteq> [] \<and> last l = d"
proof (induction s arbitrary: l)
  case Nil
  then show ?case by simp
next
  case (Cons c cs)
  show ?case
  proof (cases "c = d")
    case True
    with Cons.prems show ?thesis by auto
  next
    case False
    with Cons.prems obtain l' where sp: "split_delim d cs = Some (l', rest)" and l: "l = c # l'"
      by (auto split: option.splits)
    from Cons.IH [OF sp] l show ?thesis by simp
  qed
qed

lemma split_delim_line: "d \<notin> set l \<Longrightarrow> split_delim d (l @ d # rest) = Some (l @ [d], rest)"
  by (induction l) auto

lemma split_delim_append:
  "split_delim d s = Some (l, rest) \<Longrightarrow> split_delim d (s @ t) = Some (l, rest @ t)"
  by (induction s arbitrary: l) (auto split: if_splits option.splits)

lemma handleStream_loop_closed:
  "CHR 0x0A \<notin> set t \<Longrightarrow> handleStream_loop \<lparr>buf = t, err = e\<rparr> = [StreamClosed]"
  by (simp add: handleStream_loop.simps [of "\<lparr>buf = t, err = e\<rparr>"] ReadString_def split_delim_None [THEN iffD2])

lemma handleStream_loop_line:
  "CHR 0x0A \<notin> set l \<Longrightarrow>
   handleStream_loop \<lparr>buf = l @ CHR 0x0A # rest, err = e\<rparr> =
     Received (l @ [CHR 0x0A]) # handleStream_loop \<lparr>buf = rest, err = e\<rparr>"
  by (simp add: handleStream_loop.simps [of "\<lparr>buf = l @ CHR 0x0A # rest, err = e\<rparr>"]
        ReadString_def split_delim_line)

lemma handleStream_loop_lines:
  "\<forall>l\<in>set ls. CHR 0x0A \<notin> set l \<Longrightarrow> CHR 0x0A \<notin> set t \<Longrightarrow>
   handleStream_loop \<lparr>buf = concat (map (\<lambda>l. l @ [CHR 0x0A]) ls) @ t, err = e\<rparr> =
     map (\<lambda>l. Received (l @ [CHR 0x0A])) ls @ [StreamClosed]"
  by (induction ls) (simp_all add: handleStream_loop_closed handleStream_loop_line)

lemma handleStream_loop_err: "handleStream_loop (r\<lparr>err := e\<rparr>) = handleStream_loop r"
proof (induction r rule: handleStream_loop.induct)
  case (1 r)
  show ?case
  proof (cases "split_delim (CHR 0x0A) (buf r)")
    case None
    then show ?thesis
      by (simp add: handleStream_loop.simps [of r] handleStream_loop.simps [of "r\<lparr>err := e\<rparr>"]
            ReadString_def)
  next
    case (Some p)
    obtain l rest where p: "p = (l, rest)" by (cases p)
    have ih: "handleStream_loop (r\<lparr>buf := rest, err := e\<rparr>) = handleStream_loop (r\<lparr>buf := rest\<rparr>)"
      using "1.IH" [of "(l, None)" "r\<lparr>buf := rest\<rparr>" l None]
      by (simp add: ReadString_def Some p)
    have swap: "r\<lparr>err := e, buf := rest\<rparr> = r\<lparr>buf := rest, err := e\<rparr>"
      by (cases r) simp
    have step1: "handleStream_loop (r\<lparr>err := e\<rparr>) =
        Received l # handleStream_loop (r\<lparr>err := e, buf := rest\<rparr>)"
      by (simp add: handleStream_loop.simps [of "r\<lparr>err := e\<rparr>"] ReadString_def Some p)
    have step2: "handleStream_loop r = Received l # handleStream_loop (r\<lparr>buf := rest\<rparr>)"
      by (simp add: handleStream_loop.simps [of r] ReadString_def Some p)
    show ?thesis
      by (simp only: step1 step2 swap ih)
  qed
qed


lemma handleStream_loop_partial:
  "buf r = [] \<or> last (buf r) = CHR 0x0A \<Longrightarrow> CHR 0x0A \<notin> set t \<Longrightarrow>
   handleStream_loop (r\<lparr>buf := buf r @ t\<rparr>) = handleStream_loop r"
proof (induction r rule: handleStream_loop.induct)
  case (1 r)
  show ?case
  proof (cases "split_delim (CHR 0x0A) (buf r)")
    case None
    have "buf r = []"
    proof (rule ccontr)
      assume ne: "buf r \<noteq> []"
      with "1.prems"(1) have "last (buf r) = CHR 0x0A" by simp
      with last_in_set [OF ne] None show False by (simp add: split_delim_None)
    qed
    with "1.prems" show ?thesis
      by (simp add: handleStream_loop.simps [of r] handleStream_loop.simps [of "r\<lparr>buf := t\<rparr>"]
            ReadString_def split_delim_None [THEN iffD2])
  next
    case (Some p)
    obtain l rest where p: "p = (l, rest)" by (cases p)
    from Some p have sp: "split_delim (CHR 0x0A) (buf r) = Some (l, rest)" by simp
    from split_delim_Some [OF sp] have b: "buf r = l @ rest" and l: "l \<noteq> []" by simp_all
    from "1.prems"(1) b l have rest: "rest = [] \<or> last rest = CHR 0x0A" by (cases "rest = []") auto
    have "handleStream_loop (r\<lparr>buf := rest\<rparr>\<lparr>buf := buf (r\<lparr>buf := rest\<rparr>) @ t\<rparr>) = handleStream_loop (r\<lparr>buf := rest\<rparr>)"
      using "1.IH" [of "(l, None)" "r\<lparr>buf := rest\<rparr>" l None] rest "1.prems"(2)
      by (simp add: ReadString_def sp)
    then have "handleStream_loop (r\<lparr>buf := rest @ t\<rparr>) = handleStream_loop (r\<lparr>buf := rest\<rparr>)" by simp
    then show ?thesis
      by (simp add: handleStream_loop.simps [of r] handleStream_loop.simps [of "r\<lparr>buf := buf r @ t\<rparr>"]
            ReadString_def sp split_delim_append [OF sp])
  qed
qed

lemma handleStream_loop_Received:
  "Received x \<in> set (handleStream_loop r) \<Longrightarrow> x \<noteq> [] \<and> last x = CHR 0x0A"
proof (induction r rule: handleStream_loop.induct)
  case (1 r)
  show ?case
  proof (cases "split_delim (CHR 0x0A) (buf r)")
    case None
    with "1.prems" show ?thesis
      by (simp add: handleStream_loop.simps [of r] ReadString_def)
  next
    case (Some p)
    obtain l rest where p: "p = (l, rest)" by (cases p)
    from Some p have sp: "split_delim (CHR 0x0A) (buf r) = Some (l, rest)" by simp
    from "1.prems" have "x = l \<or> Received x \<in> set (handleStream_loop (r\<lparr>buf := rest\<rparr>))"
      by (simp add: handleStream_loop.simps [of r] ReadString_def sp)
    then show ?thesis
    proof
      assume "x = l"
      with split_delim_Some [OF sp] show ?thesis by simp
    next
      assume "Received x \<in> set (handleStream_loop (r\<lparr>buf := rest\<rparr>))"
      then show ?thesis
        using "1.IH" [of "(l, None)" "r\<lparr>buf := rest\<rparr>" l None]
        by (simp add: ReadString_def sp)
    qed
  qed
qed

subsection \<open>One iteration of the chat loop, and the loop\<close>

lemma TrimSpace_Nil: "TrimSpace [] = []"
  by (simp add: TrimSpace_def TrimLeft_def TrimRight_def)

lemma next_line_Nil: "scanner s = [] \<Longrightarrow> next_line s = []"
  by (simp add: next_line_def Scan_Text_def)

lemma next_line_Cons: "scanner s = l # ls \<Longrightarrow> next_line s = l"
  by (simp add: next_line_def Scan_Text_def)

lemma chat_iteration_ctl:
  "fst (chat_iteration e s) = (if TrimSpace (next_line s) = ''exit'' then Break else Continue)"
  by (auto simp: chat_iteration_def next_line_def emit_def Let_def split: prod.splits option.splits)

lemma chat_iteration_scanner:
  "scanner (snd (chat_iteration e s)) = snd (Scan_Text (scanner s))"
  by (auto simp: chat_iteration_def emit_def Let_def split: prod.splits option.splits)

lemma chat_iteration_peerInfo:
  "peerInfo (snd (chat_iteration e s)) = peerInfo s"
  by (auto simp: chat_iteration_def emit_def Let_def split: prod.splits option.splits)

lemma chat_iteration_opened:
  "opened (snd (chat_iteration e s)) =
     (if TrimSpace (next_line s) \<noteq> ''exit'' \<and> peerInfo s \<noteq> None then Suc (opened s) else opened s)"
  by (auto simp: chat_iteration_def next_line_def emit_def Let_def split: prod.splits option.splits)

lemma chat_iteration_trace:
  "trace (snd (chat_iteration e s)) =
     trace s @ Print EnterMessage #
       (if TrimSpace (next_line s) = ''exit'' then []
        else case peerInfo s of
               None \<Rightarrow> [Print NoPeerConnected]
             | Some info \<Rightarrow>
                 NewStream (ID info) ''/chat/1.0.0'' #
                   (case host_NewStream e (opened s) (ID info) ''/chat/1.0.0'' of
                      Some er \<Rightarrow> [Print (FailedToOpenStream er)]
                    | None \<Rightarrow>
                        Write (opened s) (next_line s @ [CHR 0x0A]) #
                          (case stream_Write e (opened s) (next_line s @ [CHR 0x0A]) of
                             Some er \<Rightarrow> [Print (FailedToSend er)]
                           | None \<Rightarrow> [])
                          @ [Close (opened s)]))"
  by (auto simp: chat_iteration_def next_line_def emit_def Let_def split: prod.splits option.splits)

lemma new_actions_append: "trace s' = trace s @ as \<Longrightarrow> new_actions s s' = as"
  by (simp add: new_actions_def)


lemma chat_loop_Suc:
  "chat_loop (Suc n) e s =
     (if TrimSpace (next_line s) = ''exit'' then Some (Inr (snd (chat_iteration e s)))
      else chat_loop n e (snd (chat_iteration e s)))"
  using chat_iteration_ctl [of e s]
  by (cases "chat_iteration e s") (auto split: loop_ctl.splits)

lemma chat_run_Suc:
  "chat_run (Suc k) e s =
     (if TrimSpace (next_line s) = ''exit'' then snd (chat_iteration e s)
      else chat_run k e (snd (chat_iteration e s)))"
  using chat_iteration_ctl [of e s]
  by (cases "chat_iteration e s") (auto split: loop_ctl.splits)

declare chat_loop.simps(2) [simp del] chat_run.simps(2) [simp del]

lemma scanner_after: "set (snd (Scan_Text ls)) \<subseteq> set ls"
  by (auto simp: Scan_Text_def split: list.splits)

lemma next_line_cases: "next_line s = [] \<or> next_line s \<in> set (scanner s)"
  by (auto simp: next_line_def Scan_Text_def split: list.splits)

lemma chat_loop_never_exits:
  "\<forall>l\<in>set (scanner s). TrimSpace l \<noteq> ''exit'' \<Longrightarrow> chat_loop n e s = None"
proof (induction n arbitrary: s)
  case 0
  show ?case by simp
next
  case (Suc n)
  have line: "TrimSpace (next_line s) \<noteq> ''exit''"
    using next_line_cases [of s] Suc.prems by (auto simp: TrimSpace_Nil)
  have "\<forall>l\<in>set (scanner (snd (chat_iteration e s))). TrimSpace l \<noteq> ''exit''"
    using Suc.prems scanner_after [of "scanner s"] by (auto simp: chat_iteration_scanner)
  then have "chat_loop n e (snd (chat_iteration e s)) = None" by (rule Suc.IH)
  with line show ?case by (simp add: chat_loop_Suc)
qed

lemma chat_loop_exits:
  "scanner s = pre @ l # rest \<Longrightarrow> \<forall>p\<in>set pre. TrimSpace p \<noteq> ''exit'' \<Longrightarrow>
   TrimSpace l = ''exit'' \<Longrightarrow>
   (\<forall>k\<le>length pre. chat_loop k e s = None) \<and>
   (\<forall>k>length pre. chat_loop k e s = Some (Inr (chat_run (Suc (length pre)) e s))) \<and>
   scanner (chat_run (Suc (length pre)) e s) = rest"
proof (induction pre arbitrary: s)
  case Nil
  then have line: "TrimSpace (next_line s) = ''exit''" by (simp add: next_line_Cons)
  have run: "chat_run (Suc 0) e s = snd (chat_iteration e s)"
    using line by (simp add: chat_run_Suc)
  have "\<And>k. k > 0 \<Longrightarrow> chat_loop k e s = Some (Inr (snd (chat_iteration e s)))"
  proof -
    fix k :: nat assume "k > 0"
    then obtain j where "k = Suc j" by (cases k) auto
    with line show "chat_loop k e s = Some (Inr (snd (chat_iteration e s)))"
      by (simp add: chat_loop_Suc)
  qed
  moreover have "scanner (snd (chat_iteration e s)) = rest"
    using Nil.prems(1) by (simp add: chat_iteration_scanner Scan_Text_def)
  ultimately show ?case by (simp add: run)
next
  case (Cons p pre)
  let ?s = "snd (chat_iteration e s)"
  from Cons.prems have line: "TrimSpace (next_line s) \<noteq> ''exit''" by (simp add: next_line_Cons)
  have sc: "scanner ?s = pre @ l # rest"
    using Cons.prems(1) by (simp add: chat_iteration_scanner Scan_Text_def)
  have ih: "(\<forall>k\<le>length pre. chat_loop k e ?s = None) \<and>
      (\<forall>k>length pre. chat_loop k e ?s = Some (Inr (chat_run (Suc (length pre)) e ?s))) \<and>
      scanner (chat_run (Suc (length pre)) e ?s) = rest"
    using Cons.IH [OF sc] Cons.prems by simp
  have ctl: "fst (chat_iteration e s) = Continue" using line by (simp add: chat_iteration_ctl)
  have run: "chat_run (Suc (Suc (length pre))) e s = chat_run (Suc (length pre)) e ?s"
    using line by (simp add: chat_run_Suc [of "Suc (length pre)"])
  have step: "\<And>j. chat_loop (Suc j) e s = chat_loop j e ?s"
    using line by (simp add: chat_loop_Suc)
  have a: "\<forall>k\<le>length (p # pre). chat_loop k e s = None"
  proof (intro allI impI)
    fix k assume k: "k \<le> length (p # pre)"
    show "chat_loop k e s = None"
    proof (cases k)
      case 0 then show ?thesis by simp
    next
      case (Suc j)
      with k have "j \<le> length pre" by simp
      with ih have "chat_loop j e ?s = None" by blast
      with Suc show ?thesis by (simp only: step)
    qed
  qed
  have b: "\<forall>k>length (p # pre). chat_loop k e s = Some (Inr (chat_run (Suc (length (p # pre))) e s))"
  proof (intro allI impI)
    fix k assume k: "k > length (p # pre)"
    then obtain j where j: "k = Suc j" by (cases k) auto
    with k have "j > length pre" by simp
    with ih have "chat_loop j e ?s = Some (Inr (chat_run (Suc (length pre)) e ?s))" by blast
    with j show "chat_loop k e s = Some (Inr (chat_run (Suc (length (p # pre))) e s))"
      using run by (simp add: step)
  qed
  from a b ih run show ?case by simp
qed

lemma exit_line_split:
  "\<exists>l\<in>set ls. P l \<Longrightarrow> \<exists>pre l rest. ls = pre @ l # rest \<and> (\<forall>p\<in>set pre. \<not> P p) \<and> P l"
  by (metis split_list_first_prop)

lemma chat_loop_never_panics: "chat_loop n e s \<noteq> Some (Inl s')"
proof (induction n arbitrary: s)
  case 0 show ?case by simp
next
  case (Suc n)
  show ?case using Suc.IH by (simp add: chat_loop_Suc)
qed

lemma chat_run_peerInfo: "peerInfo (chat_run k e s) = peerInfo s"
  by (induction k arbitrary: s) (simp_all add: chat_run_Suc chat_iteration_peerInfo)

subsection \<open>The inbound handler\<close>

text \<open>
  Every byte sequence is a sequence of newline-terminated lines followed by a rest
  without newline, so the two theorems on \<open>handleStream\<close> speak of every stream.
\<close>

lemma lines_cover_every_stream:
  "\<exists>ls t. s = concat (map (\<lambda>l. l @ [d]) ls) @ t \<and> (\<forall>l\<in>set ls. d \<notin> set l) \<and> d \<notin> set t"
proof (induction s rule: length_induct)
  case (1 s)
  show ?case
  proof (cases "d \<in> set s")
    case False
    then show ?thesis by (intro exI [of _ "[]"] exI [of _ s]) simp
  next
    case True
    then obtain l rest where s: "s = l @ d # rest" and l: "d \<notin> set l"
      by (meson split_list_first)
    then have "length rest < length s" by simp
    with 1 obtain ls t where
      "rest = concat (map (\<lambda>l. l @ [d]) ls) @ t" "\<forall>l\<in>set ls. d \<notin> set l" "d \<notin> set t"
      by blast
    with s l show ?thesis by (intro exI [of _ "l # ls"] exI [of _ t]) simp
  qed
qed

text \<open>
  Claim C2. On an inbound stream that delivers the lines \<open>ls\<close>, each ended by a
  newline, then a rest \<open>t\<close> without newline, and then fails with the error \<open>e\<close>,
  the handler prints the opening notice, every line with the received marker, in order,
  and, at the first read that reports an error, the closed notice; then it returns
  (\<open>handleStream\<close> is a total function). The output is the same for every error, end
  of stream or not. On an empty stream it prints the two notices and returns.
\<close>

theorem handleStream_prints_lines_then_closes:
  assumes "\<forall>l\<in>set ls. CHR 0x0A \<notin> set l" and "CHR 0x0A \<notin> set t"
  shows "handleStream \<lparr>buf = concat (map (\<lambda>l. l @ [CHR 0x0A]) ls) @ t, err = e\<rparr> =
           IncomingStreamOpened # map (\<lambda>l. Received (l @ [CHR 0x0A])) ls @ [StreamClosed]
         \<and> handleStream \<lparr>buf = concat (map (\<lambda>l. l @ [CHR 0x0A]) ls) @ t, err = e\<rparr> =
           handleStream \<lparr>buf = concat (map (\<lambda>l. l @ [CHR 0x0A]) ls) @ t, err = e'\<rparr>
         \<and> handleStream \<lparr>buf = [], err = e\<rparr> = [IncomingStreamOpened, StreamClosed]"
  using assms by (simp add: handleStream_def handleStream_loop_lines handleStream_loop_closed)

theorem handleStream_prints_lines_then_closes_witness:
  "handleStream \<lparr>buf = ''hello'' @ [CHR 0x0A] @ ''world'' @ [CHR 0x0A] @ ''par'', err = ReadFailed ''connection reset''\<rparr> =
     [IncomingStreamOpened, Received (''hello'' @ [CHR 0x0A]), Received (''world'' @ [CHR 0x0A]), StreamClosed]
   \<and> handleStream \<lparr>buf = ''hello'' @ [CHR 0x0A] @ ''world'' @ [CHR 0x0A] @ ''par'', err = ReadFailed ''connection reset''\<rparr> =
     handleStream \<lparr>buf = ''hello'' @ [CHR 0x0A] @ ''world'' @ [CHR 0x0A] @ ''par'', err = EOF\<rparr>
   \<and> handleStream \<lparr>buf = [], err = ReadFailed ''connection reset''\<rparr> = [IncomingStreamOpened, StreamClosed]"
proof -
  have h1: "\<forall>l\<in>set [''hello'', ''world'']. CHR 0x0A \<notin> set l" by simp
  have h2: "CHR 0x0A \<notin> set ''par''" by simp
  show ?thesis
    using handleStream_prints_lines_then_closes [OF h1 h2, of "ReadFailed ''connection reset''" EOF]
    by auto
qed

text \<open>
  Claim C9. Bytes that are pending without a newline when the stream ends are dropped:
  the output with the partial line \<open>t\<close> after the complete lines \<open>b\<close> is the output
  without it, \<open>t\<close> is not printed, and whatever is printed as received ends in a
  newline.
\<close>

theorem handleStream_discards_partial_line:
  assumes "b = [] \<or> last b = CHR 0x0A" and "CHR 0x0A \<notin> set t"
  shows "handleStream \<lparr>buf = b @ t, err = e\<rparr> = handleStream \<lparr>buf = b, err = e\<rparr>
         \<and> Received t \<notin> set (handleStream \<lparr>buf = b @ t, err = e\<rparr>)
         \<and> (\<forall>x. Received x \<in> set (handleStream \<lparr>buf = b @ t, err = e\<rparr>) \<longrightarrow>
               x \<noteq> [] \<and> last x = CHR 0x0A)"
proof -
  have "handleStream_loop (\<lparr>buf = b, err = e\<rparr>\<lparr>buf := buf \<lparr>buf = b, err = e\<rparr> @ t\<rparr>) =
        handleStream_loop \<lparr>buf = b, err = e\<rparr>"
    using assms by (intro handleStream_loop_partial) simp_all
  then have same: "handleStream \<lparr>buf = b @ t, err = e\<rparr> = handleStream \<lparr>buf = b, err = e\<rparr>"
    by (simp add: handleStream_def)
  have ends: "\<forall>x. Received x \<in> set (handleStream \<lparr>buf = b @ t, err = e\<rparr>) \<longrightarrow>
      x \<noteq> [] \<and> last x = CHR 0x0A"
    using handleStream_loop_Received by (auto simp: handleStream_def)
  have "Received t \<notin> set (handleStream \<lparr>buf = b @ t, err = e\<rparr>)"
  proof
    assume "Received t \<in> set (handleStream \<lparr>buf = b @ t, err = e\<rparr>)"
    with ends have "t \<noteq> []" and "last t = CHR 0x0A" by auto
    with last_in_set [of t] assms(2) show False by simp
  qed
  with same ends show ?thesis by blast
qed

theorem handleStream_discards_partial_line_witness:
  "(''hello'' @ [CHR 0x0A] = [] \<or> last (''hello'' @ [CHR 0x0A]) = CHR 0x0A) \<and> CHR 0x0A \<notin> set ''wor''
   \<and> handleStream \<lparr>buf = (''hello'' @ [CHR 0x0A]) @ ''wor'', err = EOF\<rparr> =
       [IncomingStreamOpened, Received (''hello'' @ [CHR 0x0A]), StreamClosed]
   \<and> Received ''wor'' \<notin> set (handleStream \<lparr>buf = (''hello'' @ [CHR 0x0A]) @ ''wor'', err = EOF\<rparr>)"
proof -
  have h1: "''hello'' @ [CHR 0x0A] = [] \<or> last (''hello'' @ [CHR 0x0A]) = CHR 0x0A" by simp
  have h2: "CHR 0x0A \<notin> set ''wor''" by simp
  have out: "handleStream \<lparr>buf = ''hello'' @ [CHR 0x0A], err = EOF\<rparr> =
      [IncomingStreamOpened, Received (''hello'' @ [CHR 0x0A]), StreamClosed]"
    by code_simp
  from handleStream_discards_partial_line [OF h1 h2, of EOF] out h1 h2
  show ?thesis by simp
qed

subsection \<open>Sending a line\<close>

lemma registered_protocols_startup:
  "registered_protocols (trace (startup h input)) = [''/chat/1.0.0'']"
proof -
  have "registered_protocols (map (\<lambda>addr. Print (ShareMultiaddr addr p)) as) = []" for p as
    by (induction as) simp_all
  then show ?thesis by (simp add: startup_def)
qed

lemma chat_iteration_new_actions:
  "new_actions s (snd (chat_iteration e s)) =
     Print EnterMessage #
       (if TrimSpace (next_line s) = ''exit'' then []
        else case peerInfo s of
               None \<Rightarrow> [Print NoPeerConnected]
             | Some info \<Rightarrow>
                 NewStream (ID info) ''/chat/1.0.0'' #
                   (case host_NewStream e (opened s) (ID info) ''/chat/1.0.0'' of
                      Some er \<Rightarrow> [Print (FailedToOpenStream er)]
                    | None \<Rightarrow>
                        Write (opened s) (next_line s @ [CHR 0x0A]) #
                          (case stream_Write e (opened s) (next_line s @ [CHR 0x0A]) of
                             Some er \<Rightarrow> [Print (FailedToSend er)]
                           | None \<Rightarrow> [])
                          @ [Close (opened s)]))"
  by (rule new_actions_append) (rule chat_iteration_trace)

text \<open>
  Claim C1 says that every iteration with a peer target and a line other than the exit
  sentinel opens a stream, writes the line and closes the stream. It does not when
  \<open>NewStream\<close> fails (lines 95 to 98): with the target \<open>QmPeer\<close>, the line \<open>hi\<close> and a
  stream request that is refused, the iteration prints the error and continues; nothing
  is written and nothing is closed.
\<close>

theorem open_failure_counterexample:
  "peerInfo (loop_state [''hi''] (Some QmPeer)) = Some QmPeer
   \<and> TrimSpace (next_line (loop_state [''hi''] (Some QmPeer))) \<noteq> ''exit''
   \<and> chat_iteration (test_env (Some ''protocol not supported'') None) (loop_state [''hi''] (Some QmPeer)) =
       (Continue,
        \<lparr>scanner = [], peerInfo = Some QmPeer, opened = 1,
         trace = [Print EnterMessage, NewStream ''QmPeer'' ''/chat/1.0.0'',
                  Print (FailedToOpenStream ''protocol not supported'')]\<rparr>)
   \<and> written [Print EnterMessage, NewStream ''QmPeer'' ''/chat/1.0.0'',
                Print (FailedToOpenStream ''protocol not supported'')] = []"
  by code_simp

text \<open>
  Claim C1, amended. In every iteration with a peer target \<open>info\<close> and a line that does
  not trim to the exit sentinel, the program requests exactly one new stream, to the
  target's peer identifier and under the protocol identifier \<open>/chat/1.0.0\<close>, the one the
  inbound handler is registered for at startup. If the request succeeds, the program
  writes the line followed by one newline to that stream and then closes the stream, also
  when the write fails (after printing the error); if the request fails, it prints the
  error, writes nothing and closes nothing. In each case the loop continues.
\<close>

theorem chat_iteration_sends:
  assumes "peerInfo s = Some info" and "TrimSpace (next_line s) \<noteq> ''exit''"
  shows "fst (chat_iteration e s) = Continue
    \<and> stream_requests (new_actions s (snd (chat_iteration e s))) = [(ID info, ''/chat/1.0.0'')]
    \<and> registered_protocols (trace (startup h input)) = [''/chat/1.0.0'']
    \<and> new_actions s (snd (chat_iteration e s)) =
        (case host_NewStream e (opened s) (ID info) ''/chat/1.0.0'' of
           None \<Rightarrow>
             [Print EnterMessage, NewStream (ID info) ''/chat/1.0.0'',
              Write (opened s) (next_line s @ [CHR 0x0A])]
             @ (case stream_Write e (opened s) (next_line s @ [CHR 0x0A]) of
                  None \<Rightarrow> []
                | Some er \<Rightarrow> [Print (FailedToSend er)])
             @ [Close (opened s)]
         | Some er \<Rightarrow>
             [Print EnterMessage, NewStream (ID info) ''/chat/1.0.0'',
              Print (FailedToOpenStream er)])"
  using assms
  by (simp add: chat_iteration_ctl chat_iteration_new_actions registered_protocols_startup
        split: option.splits)

theorem chat_iteration_sends_witness:
  "new_actions (loop_state ['' hi there ''] (Some QmPeer))
     (snd (chat_iteration (test_env None None) (loop_state ['' hi there ''] (Some QmPeer)))) =
     [Print EnterMessage, NewStream ''QmPeer'' ''/chat/1.0.0'',
      Write 0 ('' hi there '' @ [CHR 0x0A]), Close 0]
   \<and> new_actions (loop_state [''hi''] (Some QmPeer))
     (snd (chat_iteration (test_env None (Some ''stream reset'')) (loop_state [''hi''] (Some QmPeer)))) =
     [Print EnterMessage, NewStream ''QmPeer'' ''/chat/1.0.0'',
      Write 0 (''hi'' @ [CHR 0x0A]), Print (FailedToSend ''stream reset''), Close 0]
   \<and> new_actions (loop_state [''hi''] (Some QmPeer))
     (snd (chat_iteration (test_env (Some ''no route'') None) (loop_state [''hi''] (Some QmPeer)))) =
     [Print EnterMessage, NewStream ''QmPeer'' ''/chat/1.0.0'', Print (FailedToOpenStream ''no route'')]"
proof -
  have p: "peerInfo (loop_state ls (Some QmPeer)) = Some QmPeer" for ls
    by (simp add: loop_state_def)
  have l1: "TrimSpace (next_line (loop_state ['' hi there ''] (Some QmPeer))) \<noteq> ''exit''"
    by code_simp
  have l2: "TrimSpace (next_line (loop_state [''hi''] (Some QmPeer))) \<noteq> ''exit''"
    by code_simp
  have q: "ID QmPeer = ''QmPeer''" "opened (loop_state ls t) = 0"
    "next_line (loop_state [l] t) = l" for ls l t
    by (simp_all add: QmPeer_def loop_state_def next_line_def Scan_Text_def)
  show ?thesis
    using chat_iteration_sends [OF p l1, of "test_env None None"]
      chat_iteration_sends [OF p l2, of "test_env None (Some ''stream reset'')"]
      chat_iteration_sends [OF p l2, of "test_env (Some ''no route'') None"]
    by (simp add: q test_env_def)
qed

subsection \<open>Leaving the loop\<close>

lemma chat_loop_ends_iff:
  "(\<exists>n. chat_loop n e s \<noteq> None) \<longleftrightarrow> (\<exists>l\<in>set (scanner s). TrimSpace l = ''exit'')"
proof
  assume "\<exists>n. chat_loop n e s \<noteq> None"
  then obtain n where n: "chat_loop n e s \<noteq> None" ..
  show "\<exists>l\<in>set (scanner s). TrimSpace l = ''exit''"
  proof (rule ccontr)
    assume "\<not> (\<exists>l\<in>set (scanner s). TrimSpace l = ''exit'')"
    then have "\<forall>l\<in>set (scanner s). TrimSpace l \<noteq> ''exit''" by simp
    then have "chat_loop n e s = None" by (rule chat_loop_never_exits)
    with n show False by simp
  qed
next
  assume "\<exists>l\<in>set (scanner s). TrimSpace l = ''exit''"
  then obtain pre l rest where
    "scanner s = pre @ l # rest" "\<forall>p\<in>set pre. TrimSpace p \<noteq> ''exit''" "TrimSpace l = ''exit''"
    using exit_line_split [of "scanner s" "\<lambda>l. TrimSpace l = ''exit''"] by blast
  from chat_loop_exits [OF this, of e]
  have "chat_loop (Suc (length pre)) e s \<noteq> None" by simp
  then show "\<exists>n. chat_loop n e s \<noteq> None" ..
qed

text \<open>
  Claim C3. An iteration breaks the loop exactly when the line it reads trims to \<open>exit\<close>
  (an equality of byte strings, so case matters), and the loop ends exactly when some
  line of the input does: without such a line it is still running after any number of
  iterations, since the exhausted scanner yields the empty string. Every other line,
  the empty one too, is a message: with a target one stream is requested for it, without
  a target the warning is printed, and the loop continues.
\<close>

theorem chat_loop_ends_exactly_on_exit:
  "(fst (chat_iteration e s) = Break \<longleftrightarrow> TrimSpace (next_line s) = ''exit'')
   \<and> ((\<exists>n. chat_loop n e s \<noteq> None) \<longleftrightarrow> (\<exists>l\<in>set (scanner s). TrimSpace l = ''exit''))
   \<and> (TrimSpace (next_line s) \<noteq> ''exit'' \<longrightarrow>
        fst (chat_iteration e s) = Continue
        \<and> (case peerInfo s of
             Some info \<Rightarrow>
               stream_requests (new_actions s (snd (chat_iteration e s))) = [(ID info, ''/chat/1.0.0'')]
           | None \<Rightarrow>
               new_actions s (snd (chat_iteration e s)) = [Print EnterMessage, Print NoPeerConnected]))"
proof -
  have "fst (chat_iteration e s) = Break \<longleftrightarrow> TrimSpace (next_line s) = ''exit''"
    by (simp add: chat_iteration_ctl)
  moreover have "TrimSpace (next_line s) \<noteq> ''exit'' \<longrightarrow>
        fst (chat_iteration e s) = Continue
        \<and> (case peerInfo s of
             Some info \<Rightarrow>
               stream_requests (new_actions s (snd (chat_iteration e s))) = [(ID info, ''/chat/1.0.0'')]
           | None \<Rightarrow>
               new_actions s (snd (chat_iteration e s)) = [Print EnterMessage, Print NoPeerConnected])"
    by (simp add: chat_iteration_ctl chat_iteration_new_actions split: option.splits)
  ultimately show ?thesis using chat_loop_ends_iff [of e s] by blast
qed

theorem chat_loop_ends_exactly_on_exit_witness:
  "(\<exists>n. chat_loop n (test_env None None) (loop_state [''hello'', '''', ''Exit'', ''  exit  ''] None) \<noteq> None)
   \<and> \<not> (\<exists>n. chat_loop n (test_env None None) (loop_state [''hello'', '''', ''Exit'', ''exit now''] None) \<noteq> None)
   \<and> fst (chat_iteration (test_env None None) (loop_state [''  exit  ''] None)) = Break
   \<and> fst (chat_iteration (test_env None None) (loop_state [''Exit''] None)) = Continue
   \<and> new_actions (loop_state [''''] None)
        (snd (chat_iteration (test_env None None) (loop_state [''''] None))) =
        [Print EnterMessage, Print NoPeerConnected]
   \<and> stream_requests (new_actions (loop_state [''''] (Some QmPeer))
        (snd (chat_iteration (test_env None None) (loop_state [''''] (Some QmPeer))))) =
        [(''QmPeer'', ''/chat/1.0.0'')]"
proof -
  let ?e = "test_env None None"
  have sc: "scanner (loop_state ls t) = ls" "peerInfo (loop_state ls t) = t"
    "next_line (loop_state [l] t) = l" for ls l t
    by (simp_all add: loop_state_def next_line_def Scan_Text_def)
  have t1: "TrimSpace ''  exit  '' = ''exit''" by code_simp
  have t2: "TrimSpace ''hello'' \<noteq> ''exit''" "TrimSpace '''' \<noteq> ''exit''"
    "TrimSpace ''Exit'' \<noteq> ''exit''" "TrimSpace ''exit now'' \<noteq> ''exit''"
    by code_simp+
  have id: "ID QmPeer = ''QmPeer''" by (simp add: QmPeer_def)
  note th = chat_loop_ends_exactly_on_exit
  show ?thesis
    using th [of ?e "loop_state [''hello'', '''', ''Exit'', ''  exit  ''] None"]
      th [of ?e "loop_state [''hello'', '''', ''Exit'', ''exit now''] None"]
      th [of ?e "loop_state [''  exit  ''] None"]
      th [of ?e "loop_state [''Exit''] None"]
      th [of ?e "loop_state [''''] None"]
      th [of ?e "loop_state [''''] (Some QmPeer)"]
    by (simp add: sc t1 t2 id)
qed

subsection \<open>No target, and failed sends\<close>

lemma chat_loop_result: "chat_loop n e s = None \<or> (\<exists>s'. chat_loop n e s = Some (Inr s'))"
proof (cases "chat_loop n e s")
  case None
  then show ?thesis by simp
next
  case (Some r)
  then show ?thesis using chat_loop_never_panics [of n e s] by (cases r) auto
qed

lemma main_never_nil_panics: "main n e input \<noteq> Some (Panic NilPointerDereference, out)"
proof (cases "GenerateEd25519Key e")
  case (Inl er)
  then show ?thesis by (simp add: main_def)
next
  case (Inr priv)
  note key = this
  show ?thesis
  proof (cases "libp2p_New e priv")
    case (Inl er)
    with key show ?thesis by (simp add: main_def)
  next
    case (Inr h)
    obtain f s where sel: "select_target e (startup h input) = (f, s)"
      by (cases "select_target e (startup h input)")
    show ?thesis
    proof (cases f)
      case Returned
      with key Inr sel show ?thesis by (simp add: main_def)
    next
      case Proceed
      with key Inr sel chat_loop_result [of n e s] show ?thesis
        by (auto simp: main_def)
    qed
  qed
qed

text \<open>
  Claim C4. Without a peer target, an iteration whose line is not the exit sentinel
  prints the prompt and the warning and does nothing else: no action on the network, no
  stream requested, and the loop continues. The dereference of \<open>peerInfo\<close> is never
  reached with a nil pointer: neither the loop nor \<open>main\<close> ends in that panic.
\<close>

theorem no_peer_never_dereferenced:
  assumes "peerInfo s = None" and "TrimSpace (next_line s) \<noteq> ''exit''"
  shows "fst (chat_iteration e s) = Continue
    \<and> new_actions s (snd (chat_iteration e s)) = [Print EnterMessage, Print NoPeerConnected]
    \<and> network_actions (new_actions s (snd (chat_iteration e s))) = []
    \<and> opened (snd (chat_iteration e s)) = opened s
    \<and> chat_loop n e s \<noteq> Some (Inl s')
    \<and> main n e input \<noteq> Some (Panic NilPointerDereference, out)"
  using assms chat_loop_never_panics [of n e s s'] main_never_nil_panics [of n e input out]
  by (simp add: chat_iteration_ctl chat_iteration_new_actions chat_iteration_opened
        network_actions_def)

theorem no_peer_never_dereferenced_witness:
  "chat_iteration (test_env (Some ''unused'') (Some ''unused'')) (loop_state [''hello''] None) =
     (Continue, \<lparr>scanner = [], peerInfo = None, opened = 0,
                 trace = [Print EnterMessage, Print NoPeerConnected]\<rparr>)
   \<and> network_actions (new_actions (loop_state [''hello''] None)
        (snd (chat_iteration (test_env (Some ''unused'') (Some ''unused'')) (loop_state [''hello''] None)))) = []
   \<and> main 3 (test_env (Some ''unused'') (Some ''unused'')) ['''', ''hello'', ''exit''] \<noteq>
        Some (Panic NilPointerDereference, [])"
proof -
  have h1: "peerInfo (loop_state [''hello''] None) = None" by (simp add: loop_state_def)
  have h2: "TrimSpace (next_line (loop_state [''hello''] None)) \<noteq> ''exit''" by code_simp
  have it: "chat_iteration (test_env (Some ''unused'') (Some ''unused'')) (loop_state [''hello''] None) =
     (Continue, \<lparr>scanner = [], peerInfo = None, opened = 0,
                 trace = [Print EnterMessage, Print NoPeerConnected]\<rparr>)"
    by code_simp
  from no_peer_never_dereferenced [OF h1 h2, of "test_env (Some ''unused'') (Some ''unused'')"
      3 "loop_state [] None" "['''', ''hello'', ''exit'']" "[]"] it
  show ?thesis by (simp add: new_actions_def loop_state_def network_actions_def)
qed

text \<open>
  Claim C6. In an iteration with a peer target and a line other than the exit sentinel,
  a failed stream request prints its error, and a failed write prints its error (and the
  stream is closed); in both cases the iteration continues the loop, which goes on with
  the next line of the input.
\<close>

theorem failed_send_continues:
  assumes "peerInfo s = Some info" and "TrimSpace (next_line s) \<noteq> ''exit''"
  shows "(host_NewStream e (opened s) (ID info) ''/chat/1.0.0'' = Some er \<longrightarrow>
            new_actions s (snd (chat_iteration e s)) =
              [Print EnterMessage, NewStream (ID info) ''/chat/1.0.0'', Print (FailedToOpenStream er)])
    \<and> (host_NewStream e (opened s) (ID info) ''/chat/1.0.0'' = None \<and>
        stream_Write e (opened s) (next_line s @ [CHR 0x0A]) = Some er \<longrightarrow>
            new_actions s (snd (chat_iteration e s)) =
              [Print EnterMessage, NewStream (ID info) ''/chat/1.0.0'',
               Write (opened s) (next_line s @ [CHR 0x0A]), Print (FailedToSend er),
               Close (opened s)])
    \<and> fst (chat_iteration e s) = Continue
    \<and> scanner (snd (chat_iteration e s)) = snd (Scan_Text (scanner s))
    \<and> chat_loop (Suc n) e s = chat_loop n e (snd (chat_iteration e s))"
  using assms
  by (simp add: chat_iteration_ctl chat_iteration_new_actions chat_iteration_scanner chat_loop_Suc)

theorem failed_send_continues_witness:
  "new_actions (loop_state [''one'', ''two'', ''exit''] (Some QmPeer))
     (snd (chat_iteration (test_env (Some ''no route'') None) (loop_state [''one'', ''two'', ''exit''] (Some QmPeer)))) =
     [Print EnterMessage, NewStream ''QmPeer'' ''/chat/1.0.0'', Print (FailedToOpenStream ''no route'')]
   \<and> new_actions (loop_state [''one'', ''two'', ''exit''] (Some QmPeer))
     (snd (chat_iteration (test_env None (Some ''stream reset'')) (loop_state [''one'', ''two'', ''exit''] (Some QmPeer)))) =
     [Print EnterMessage, NewStream ''QmPeer'' ''/chat/1.0.0'', Write 0 (''one'' @ [CHR 0x0A]),
      Print (FailedToSend ''stream reset''), Close 0]
   \<and> fst (chat_iteration (test_env (Some ''no route'') None) (loop_state [''one'', ''two'', ''exit''] (Some QmPeer))) = Continue
   \<and> scanner (snd (chat_iteration (test_env (Some ''no route'') None) (loop_state [''one'', ''two'', ''exit''] (Some QmPeer)))) =
       [''two'', ''exit'']
   \<and> chat_loop 3 (test_env (Some ''no route'') None) (loop_state [''one'', ''two'', ''exit''] (Some QmPeer)) =
       Some (Inr \<lparr>scanner = [], peerInfo = Some QmPeer, opened = 2,
           trace = [Print EnterMessage, NewStream ''QmPeer'' ''/chat/1.0.0'', Print (FailedToOpenStream ''no route''),
                    Print EnterMessage, NewStream ''QmPeer'' ''/chat/1.0.0'', Print (FailedToOpenStream ''no route''),
                    Print EnterMessage]\<rparr>)"
proof -
  let ?s = "loop_state [''one'', ''two'', ''exit''] (Some QmPeer)"
  have h1: "peerInfo ?s = Some QmPeer" by (simp add: loop_state_def)
  have h2: "TrimSpace (next_line ?s) \<noteq> ''exit''" by code_simp
  have q: "ID QmPeer = ''QmPeer''" "opened ?s = 0" "next_line ?s = ''one''"
    "snd (Scan_Text (scanner ?s)) = [''two'', ''exit'']"
    by (simp_all add: QmPeer_def loop_state_def next_line_def Scan_Text_def)
  have loop: "chat_loop 3 (test_env (Some ''no route'') None) ?s =
       Some (Inr \<lparr>scanner = [], peerInfo = Some QmPeer, opened = 2,
           trace = [Print EnterMessage, NewStream ''QmPeer'' ''/chat/1.0.0'', Print (FailedToOpenStream ''no route''),
                    Print EnterMessage, NewStream ''QmPeer'' ''/chat/1.0.0'', Print (FailedToOpenStream ''no route''),
                    Print EnterMessage]\<rparr>)"
    by code_simp
  show ?thesis
    using failed_send_continues [OF h1 h2, of "test_env (Some ''no route'') None" "''no route''" 2]
      failed_send_continues [OF h1 h2, of "test_env None (Some ''stream reset'')" "''stream reset''" 2]
      loop
    by (simp add: q test_env_def)
qed

subsection \<open>The target is fixed; the payload is the line as read\<close>

lemma chat_loop_peerInfo: "chat_loop n e s = Some (Inr s') \<Longrightarrow> peerInfo s' = peerInfo s"
proof (induction n arbitrary: s)
  case 0
  then show ?case by simp
next
  case (Suc n)
  show ?case
  proof (cases "TrimSpace (next_line s) = ''exit''")
    case True
    with Suc.prems have "s' = snd (chat_iteration e s)" by (simp add: chat_loop_Suc)
    then show ?thesis by (simp add: chat_iteration_peerInfo)
  next
    case False
    with Suc.prems have "chat_loop n e (snd (chat_iteration e s)) = Some (Inr s')"
      by (simp add: chat_loop_Suc)
    from Suc.IH [OF this] show ?thesis by (simp add: chat_iteration_peerInfo)
  qed
qed

lemma select_target_peerInfo:
  "peerInfo (snd (select_target e s)) =
     (if next_line s = [] then peerInfo s
      else case NewMultiaddr e (next_line s) of
             Inl er \<Rightarrow> peerInfo s
           | Inr maddr \<Rightarrow>
               (case AddrInfoFromP2pAddr e maddr of
                  Inl er \<Rightarrow> peerInfo s
                | Inr info \<Rightarrow> Some info))"
  by (auto simp: select_target_def next_line_def emit_def Let_def
           split: prod.splits sum.splits option.splits)

text \<open>
  Claim C7. \<open>peerInfo\<close> is nil at startup, target selection assigns it at most once (the
  peer parsed from a non-empty first line), and the chat loop never changes it: it is the
  same after one iteration, after any number of iterations, and when the loop has ended.
\<close>

theorem peer_target_is_fixed:
  "peerInfo (startup h input) = None
   \<and> peerInfo (snd (select_target e (startup h input))) =
       (if next_line (startup h input) = [] then None
        else case NewMultiaddr e (next_line (startup h input)) of
               Inl er \<Rightarrow> None
             | Inr maddr \<Rightarrow>
                 (case AddrInfoFromP2pAddr e maddr of
                    Inl er \<Rightarrow> None
                  | Inr info \<Rightarrow> Some info))
   \<and> peerInfo (snd (chat_iteration e s)) = peerInfo s
   \<and> peerInfo (chat_run k e s) = peerInfo s
   \<and> (chat_loop n e s = Some (Inr s') \<longrightarrow> peerInfo s' = peerInfo s)"
proof -
  have "peerInfo (startup h input) = None" by (simp add: startup_def)
  then show ?thesis
    using chat_loop_peerInfo [of n e s s']
    by (simp add: select_target_peerInfo chat_iteration_peerInfo chat_run_peerInfo
          split: sum.splits)
qed

theorem peer_target_is_fixed_witness:
  "peerInfo (chat_run 2 (test_env None None) (loop_state [''a'', ''b'', ''exit''] (Some QmPeer))) = Some QmPeer
   \<and> peerInfo (chat_run 2 (test_env None None) (loop_state [''a'', ''b'', ''exit''] None)) = None
   \<and> chat_loop 3 (test_env None None) (loop_state [''a'', ''b'', ''exit''] (Some QmPeer)) =
       Some (Inr \<lparr>scanner = [], peerInfo = Some QmPeer, opened = 2,
         trace = [Print EnterMessage, NewStream ''QmPeer'' ''/chat/1.0.0'', Write 0 (''a'' @ [CHR 0x0A]), Close 0,
                  Print EnterMessage, NewStream ''QmPeer'' ''/chat/1.0.0'', Write 1 (''b'' @ [CHR 0x0A]), Close 1,
                  Print EnterMessage]\<rparr>)
   \<and> peerInfo \<lparr>scanner = [], peerInfo = Some QmPeer, opened = 2,
         trace = [Print EnterMessage, NewStream ''QmPeer'' ''/chat/1.0.0'', Write 0 (''a'' @ [CHR 0x0A]), Close 0,
                  Print EnterMessage, NewStream ''QmPeer'' ''/chat/1.0.0'', Write 1 (''b'' @ [CHR 0x0A]), Close 1,
                  Print EnterMessage]\<rparr> = peerInfo (loop_state [''a'', ''b'', ''exit''] (Some QmPeer))"
proof -
  let ?e = "test_env None None"
  let ?s = "loop_state [''a'', ''b'', ''exit''] (Some QmPeer)"
  let ?s' = "\<lparr>scanner = [], peerInfo = Some QmPeer, opened = 2,
         trace = [Print EnterMessage, NewStream ''QmPeer'' ''/chat/1.0.0'', Write 0 (''a'' @ [CHR 0x0A]), Close 0,
                  Print EnterMessage, NewStream ''QmPeer'' ''/chat/1.0.0'', Write 1 (''b'' @ [CHR 0x0A]), Close 1,
                  Print EnterMessage]\<rparr>"
  have loop: "chat_loop 3 ?e ?s = Some (Inr ?s')" by code_simp
  have p: "peerInfo (loop_state ls t) = t" for ls t by (simp add: loop_state_def)
  from peer_target_is_fixed [of _ _ ?e ?s 2 3 ?s']
    peer_target_is_fixed [of _ _ ?e "loop_state [''a'', ''b'', ''exit''] None" 2 3 ?s'] loop p
  show ?thesis by simp
qed

text \<open>
  Claim C10. The trimmed line is used for the comparison with \<open>exit\<close> only. When the
  line trims to \<open>exit\<close> the loop breaks after the prompt and nothing is written. Otherwise
  whatever the iteration writes is the line as read, untrimmed, followed by one newline;
  it writes exactly that when a target is set and the stream request succeeds (and nothing
  when there is no target or the request fails).
\<close>

theorem trimming_only_for_exit_test:
  "(TrimSpace (next_line s) = ''exit'' \<longrightarrow>
      fst (chat_iteration e s) = Break
      \<and> new_actions s (snd (chat_iteration e s)) = [Print EnterMessage]
      \<and> written (new_actions s (snd (chat_iteration e s))) = [])
   \<and> (TrimSpace (next_line s) \<noteq> ''exit'' \<longrightarrow>
      (written (new_actions s (snd (chat_iteration e s))) = [next_line s @ [CHR 0x0A]]
       \<or> written (new_actions s (snd (chat_iteration e s))) = [])
      \<and> (\<forall>info. peerInfo s = Some info \<and>
                  host_NewStream e (opened s) (ID info) ''/chat/1.0.0'' = None \<longrightarrow>
            written (new_actions s (snd (chat_iteration e s))) = [next_line s @ [CHR 0x0A]]))"
  by (auto simp: chat_iteration_ctl chat_iteration_new_actions split: option.splits)

theorem trimming_only_for_exit_test_witness:
  "fst (chat_iteration (test_env None None) (loop_state [''  exit  ''] (Some QmPeer))) = Break
   \<and> new_actions (loop_state [''  exit  ''] (Some QmPeer))
       (snd (chat_iteration (test_env None None) (loop_state [''  exit  ''] (Some QmPeer)))) = [Print EnterMessage]
   \<and> written (new_actions (loop_state [''  hello  ''] (Some QmPeer))
       (snd (chat_iteration (test_env None None) (loop_state [''  hello  ''] (Some QmPeer))))) =
       [''  hello  '' @ [CHR 0x0A]]"
proof -
  let ?e = "test_env None None"
  have t: "TrimSpace (next_line (loop_state [''  exit  ''] (Some QmPeer))) = ''exit''"
    "TrimSpace (next_line (loop_state [''  hello  ''] (Some QmPeer))) \<noteq> ''exit''"
    by code_simp+
  have q: "peerInfo (loop_state ls (Some QmPeer)) = Some QmPeer"
    "next_line (loop_state [l] u) = l"
    "host_NewStream ?e k p proto = None" for ls l u k p proto
    by (simp_all add: loop_state_def next_line_def Scan_Text_def test_env_def)
  from trimming_only_for_exit_test [of "loop_state [''  exit  ''] (Some QmPeer)" ?e]
    trimming_only_for_exit_test [of "loop_state [''  hello  ''] (Some QmPeer)" ?e] t
  show ?thesis by (simp add: q)
qed

subsection \<open>Target selection and the end of main\<close>

lemma main_after_bootstrap:
  assumes "GenerateEd25519Key e = Inr priv" and "libp2p_New e priv = Inr h"
  shows "main n e input =
    (case select_target e (startup h input) of
       (Returned, s) \<Rightarrow> Some (Return, trace s)
     | (Proceed, s) \<Rightarrow>
         (case chat_loop n e s of
            None \<Rightarrow> None
          | Some (Inl s') \<Rightarrow> Some (Panic NilPointerDereference, trace s')
          | Some (Inr s') \<Rightarrow> Some (BlocksForever, trace s' @ [Print Exiting])))"
  using assms by (simp add: main_def)

lemma startup_fields:
  "scanner (startup h input) = input" "peerInfo (startup h input) = None"
  "opened (startup h input) = 0"
  by (simp_all add: startup_def)

lemma select_target_empty:
  "fst (Scan_Text (scanner s)) = [] \<Longrightarrow>
   select_target e s =
     (Proceed, \<lparr>scanner = snd (Scan_Text (scanner s)), peerInfo = peerInfo s, opened = opened s,
                trace = trace s @ [Print EnterTarget]\<rparr>)"
  by (cases s) (auto simp: select_target_def emit_def Let_def split: prod.splits)

lemma select_target_invalid:
  "fst (Scan_Text (scanner s)) \<noteq> [] \<Longrightarrow> NewMultiaddr e (fst (Scan_Text (scanner s))) = Inl er \<Longrightarrow>
   select_target e s =
     (Returned, \<lparr>scanner = snd (Scan_Text (scanner s)), peerInfo = peerInfo s, opened = opened s,
                 trace = trace s @ [Print EnterTarget, Print (InvalidMultiaddr er)]\<rparr>)"
  by (cases s) (auto simp: select_target_def emit_def Let_def split: prod.splits)

lemma select_target_no_peer_id:
  "fst (Scan_Text (scanner s)) \<noteq> [] \<Longrightarrow> NewMultiaddr e (fst (Scan_Text (scanner s))) = Inr m \<Longrightarrow>
   AddrInfoFromP2pAddr e m = Inl er \<Longrightarrow>
   select_target e s =
     (Returned, \<lparr>scanner = snd (Scan_Text (scanner s)), peerInfo = peerInfo s, opened = opened s,
                 trace = trace s @ [Print EnterTarget, Print (FailedToParsePeerInfo er)]\<rparr>)"
  by (cases s) (auto simp: select_target_def emit_def Let_def split: prod.splits)

lemma select_target_connect_fails:
  "fst (Scan_Text (scanner s)) \<noteq> [] \<Longrightarrow> NewMultiaddr e (fst (Scan_Text (scanner s))) = Inr m \<Longrightarrow>
   AddrInfoFromP2pAddr e m = Inr info \<Longrightarrow> host_Connect e info = Some er \<Longrightarrow>
   select_target e s =
     (Returned, \<lparr>scanner = snd (Scan_Text (scanner s)), peerInfo = Some info, opened = opened s,
                 trace = trace s @ [Print EnterTarget, Connect info, Print (ConnectionFailed er)]\<rparr>)"
  by (cases s) (auto simp: select_target_def emit_def Let_def split: prod.splits)

lemma select_target_connected:
  "fst (Scan_Text (scanner s)) \<noteq> [] \<Longrightarrow> NewMultiaddr e (fst (Scan_Text (scanner s))) = Inr m \<Longrightarrow>
   AddrInfoFromP2pAddr e m = Inr info \<Longrightarrow> host_Connect e info = None \<Longrightarrow>
   select_target e s =
     (Proceed, \<lparr>scanner = snd (Scan_Text (scanner s)), peerInfo = Some info, opened = opened s,
                trace = trace s @ [Print EnterTarget, Connect info, Print (ConnectedToPeer (ID info))]\<rparr>)"
  by (cases s) (auto simp: select_target_def emit_def Let_def split: prod.splits)

text \<open>
  Claim C5. After a successful bootstrap, target selection reads one line. An empty line
  selects no target and the chat loop starts without one. A line that \<open>NewMultiaddr\<close>
  rejects, an address from which \<open>AddrInfoFromP2pAddr\<close> extracts no peer, or a peer to
  which \<open>Connect\<close> fails, prints the error and \<open>main\<close> returns, whatever the fuel: the
  chat loop does not start (no message prompt is printed). Only when all three succeed is
  the peer kept in \<open>peerInfo\<close> and the confirmation printed, and the chat loop starts:
  once target selection proceeds, \<open>main\<close> runs the loop and ends as the loop does.
\<close>

theorem target_selection:
  assumes "GenerateEd25519Key e = Inr priv" and "libp2p_New e priv = Inr h"
  shows
   "(fst (Scan_Text input) = [] \<longrightarrow>
       select_target e (startup h input) =
         (Proceed, \<lparr>scanner = snd (Scan_Text input), peerInfo = None, opened = 0,
                    trace = trace (startup h input) @ [Print EnterTarget]\<rparr>))
    \<and> (fst (Scan_Text input) \<noteq> [] \<longrightarrow>
       (\<forall>er. NewMultiaddr e (fst (Scan_Text input)) = Inl er \<longrightarrow>
          main n e input =
            Some (Return, trace (startup h input) @ [Print EnterTarget, Print (InvalidMultiaddr er)]))
       \<and> (\<forall>m. NewMultiaddr e (fst (Scan_Text input)) = Inr m \<longrightarrow>
          (\<forall>er. AddrInfoFromP2pAddr e m = Inl er \<longrightarrow>
             main n e input =
               Some (Return, trace (startup h input) @ [Print EnterTarget, Print (FailedToParsePeerInfo er)]))
          \<and> (\<forall>info. AddrInfoFromP2pAddr e m = Inr info \<longrightarrow>
             (\<forall>er. host_Connect e info = Some er \<longrightarrow>
                main n e input =
                  Some (Return, trace (startup h input) @
                                [Print EnterTarget, Connect info, Print (ConnectionFailed er)]))
             \<and> (host_Connect e info = None \<longrightarrow>
                select_target e (startup h input) =
                  (Proceed, \<lparr>scanner = snd (Scan_Text input), peerInfo = Some info, opened = 0,
                             trace = trace (startup h input) @
                               [Print EnterTarget, Connect info, Print (ConnectedToPeer (ID info))]\<rparr>)))))
    \<and> (\<forall>s. select_target e (startup h input) = (Proceed, s) \<longrightarrow>
          (main n e input = None \<longleftrightarrow> chat_loop n e s = None)
          \<and> (\<forall>s'. chat_loop n e s = Some (Inr s') \<longrightarrow>
                main n e input = Some (BlocksForever, trace s' @ [Print Exiting])))"
proof -
  let ?s = "startup h input"
  note m = main_after_bootstrap [OF assms, of n input]
  have a: "fst (Scan_Text input) = [] \<longrightarrow>
       select_target e ?s =
         (Proceed, \<lparr>scanner = snd (Scan_Text input), peerInfo = None, opened = 0,
                    trace = trace ?s @ [Print EnterTarget]\<rparr>)"
    using select_target_empty [of ?s e] by (simp add: startup_fields)
  have b: "fst (Scan_Text input) \<noteq> [] \<Longrightarrow> NewMultiaddr e (fst (Scan_Text input)) = Inl er \<Longrightarrow>
          main n e input =
            Some (Return, trace ?s @ [Print EnterTarget, Print (InvalidMultiaddr er)])" for er
    using select_target_invalid [of ?s e er] by (simp add: startup_fields m)
  have c: "fst (Scan_Text input) \<noteq> [] \<Longrightarrow> NewMultiaddr e (fst (Scan_Text input)) = Inr ma \<Longrightarrow>
          AddrInfoFromP2pAddr e ma = Inl er \<Longrightarrow>
          main n e input =
            Some (Return, trace ?s @ [Print EnterTarget, Print (FailedToParsePeerInfo er)])" for er ma
    using select_target_no_peer_id [of ?s e ma er] by (simp add: startup_fields m)
  have d: "fst (Scan_Text input) \<noteq> [] \<Longrightarrow> NewMultiaddr e (fst (Scan_Text input)) = Inr ma \<Longrightarrow>
          AddrInfoFromP2pAddr e ma = Inr info \<Longrightarrow> host_Connect e info = Some er \<Longrightarrow>
          main n e input =
            Some (Return, trace ?s @ [Print EnterTarget, Connect info, Print (ConnectionFailed er)])"
    for er ma info
    using select_target_connect_fails [of ?s e ma info er] by (simp add: startup_fields m)
  have f: "fst (Scan_Text input) \<noteq> [] \<Longrightarrow> NewMultiaddr e (fst (Scan_Text input)) = Inr ma \<Longrightarrow>
          AddrInfoFromP2pAddr e ma = Inr info \<Longrightarrow> host_Connect e info = None \<Longrightarrow>
          select_target e ?s =
            (Proceed, \<lparr>scanner = snd (Scan_Text input), peerInfo = Some info, opened = 0,
                       trace = trace ?s @
                         [Print EnterTarget, Connect info, Print (ConnectedToPeer (ID info))]\<rparr>)"
    for ma info
    using select_target_connected [of ?s e ma info] by (simp add: startup_fields)
  have g: "select_target e ?s = (Proceed, s) \<Longrightarrow>
          (main n e input = None \<longleftrightarrow> chat_loop n e s = None)
          \<and> (\<forall>s'. chat_loop n e s = Some (Inr s') \<longrightarrow>
                main n e input = Some (BlocksForever, trace s' @ [Print Exiting]))" for s
    using chat_loop_result [of n e s] by (auto simp: m)
  from a b c d f g show ?thesis by blast
qed


theorem target_selection_witness:
  "select_target (test_env None None) (startup \<lparr>host_ID = ''QmSelf'', host_Addrs = [''/ip4/127.0.0.1/tcp/4001'']\<rparr> ['''', ''hello'']) =
     (Proceed, \<lparr>scanner = [''hello''], peerInfo = None, opened = 0,
        trace = [SetStreamHandler ''/chat/1.0.0'', Print PeerStarted, Print (PeerID ''QmSelf''),
                 Print (ShareMultiaddr ''/ip4/127.0.0.1/tcp/4001'' ''QmSelf''), Print EnterTarget]\<rparr>)
   \<and> main 0 (test_env None None) [''not an address'', ''hello'', ''exit''] =
     Some (Return, [SetStreamHandler ''/chat/1.0.0'', Print PeerStarted, Print (PeerID ''QmSelf''),
                    Print (ShareMultiaddr ''/ip4/127.0.0.1/tcp/4001'' ''QmSelf''), Print EnterTarget,
                    Print (InvalidMultiaddr ''must begin with /'')])
   \<and> main 5 (test_env None None) [''/ip4/10.0.0.2/tcp/4001'', ''hello'', ''exit''] =
     Some (Return, [SetStreamHandler ''/chat/1.0.0'', Print PeerStarted, Print (PeerID ''QmSelf''),
                    Print (ShareMultiaddr ''/ip4/127.0.0.1/tcp/4001'' ''QmSelf''), Print EnterTarget,
                    Print (FailedToParsePeerInfo ''invalid p2p multiaddr'')])
   \<and> main 5 (test_env None None) [''/ip4/10.0.0.3/tcp/4001/p2p/QmGone'', ''hello'', ''exit''] =
     Some (Return, [SetStreamHandler ''/chat/1.0.0'', Print PeerStarted, Print (PeerID ''QmSelf''),
                    Print (ShareMultiaddr ''/ip4/127.0.0.1/tcp/4001'' ''QmSelf''), Print EnterTarget,
                    Connect \<lparr>ID = ''QmGone'', Addrs = [''/ip4/10.0.0.3/tcp/4001'']\<rparr>,
                    Print (ConnectionFailed ''dial failed'')])
   \<and> select_target (test_env None None) (startup \<lparr>host_ID = ''QmSelf'', host_Addrs = [''/ip4/127.0.0.1/tcp/4001'']\<rparr>
         [''/ip4/10.0.0.2/tcp/4001/p2p/QmPeer'', ''hello'']) =
     (Proceed, \<lparr>scanner = [''hello''], peerInfo = Some QmPeer, opened = 0,
        trace = [SetStreamHandler ''/chat/1.0.0'', Print PeerStarted, Print (PeerID ''QmSelf''),
                 Print (ShareMultiaddr ''/ip4/127.0.0.1/tcp/4001'' ''QmSelf''), Print EnterTarget,
                 Connect QmPeer, Print (ConnectedToPeer ''QmPeer'')]\<rparr>)"
proof -
  let ?e = "test_env None None"
  let ?h = "\<lparr>host_ID = ''QmSelf'', host_Addrs = [''/ip4/127.0.0.1/tcp/4001'']\<rparr>"
  have k: "GenerateEd25519Key ?e = Inr ''key''" by (simp add: test_env_def)
  have h: "libp2p_New ?e ''key'' = Inr ?h" by (simp add: test_env_def)
  note th = target_selection [OF k h]
  show ?thesis
    using th [of "['''', ''hello'']" 0]
      th [of "[''not an address'', ''hello'', ''exit'']" 0]
      th [of "[''/ip4/10.0.0.2/tcp/4001'', ''hello'', ''exit'']" 5]
      th [of "[''/ip4/10.0.0.3/tcp/4001/p2p/QmGone'', ''hello'', ''exit'']" 5]
      th [of "[''/ip4/10.0.0.2/tcp/4001/p2p/QmPeer'', ''hello'']" 0]
    by (simp add: test_env_def startup_def Scan_Text_def QmPeer_def)
qed

lemma select_target_trace:
  "Print EnterMessage \<notin> set (trace s0) \<Longrightarrow> Print Exiting \<notin> set (trace s0) \<Longrightarrow>
   Print EnterMessage \<notin> set (trace (snd (select_target e s0))) \<and>
   Print Exiting \<notin> set (trace (snd (select_target e s0)))"
  by (auto simp: select_target_def emit_def Let_def split: prod.splits sum.splits option.splits)

lemma startup_trace:
  "Print EnterMessage \<notin> set (trace (startup h input)) \<and> Print Exiting \<notin> set (trace (startup h input))"
  by (auto simp: startup_def)

lemma main_outcome:
  "main n e input = Some (oc, out) \<Longrightarrow> Print Exiting \<in> set out \<longleftrightarrow> oc = BlocksForever"
proof (cases "GenerateEd25519Key e")
  case (Inl er)
  assume "main n e input = Some (oc, out)"
  with Inl show ?thesis by (auto simp: main_def)
next
  case (Inr priv)
  note key = this
  assume run: "main n e input = Some (oc, out)"
  show ?thesis
  proof (cases "libp2p_New e priv")
    case (Inl er)
    with key run show ?thesis by (auto simp: main_def)
  next
    case (Inr h)
    note m = main_after_bootstrap [OF key Inr, of n input]
    obtain f s where sel: "select_target e (startup h input) = (f, s)"
      by (cases "select_target e (startup h input)")
    show ?thesis
    proof (cases f)
      case Returned
      with run sel m have "oc = Return" "out = trace s" by simp_all
      moreover have "Print Exiting \<notin> set (trace s)"
        using select_target_trace [of "startup h input" e] startup_trace [of h input] sel by simp
      ultimately show ?thesis by simp
    next
      case Proceed
      with run sel m chat_loop_result [of n e s] show ?thesis by auto
    qed
  qed
qed

text \<open>
  Claim C8. When the chat loop is reached and the input has a line that trims to \<open>exit\<close>,
  \<open>main\<close> is in the loop up to that line and then prints the farewell and reaches the
  empty \<open>select\<close>: its outcome is \<open>BlocksForever\<close> with the farewell as the last action,
  and never \<open>Return\<close>. On every run, the farewell is printed exactly on the runs that
  end blocked forever.
\<close>

theorem exit_then_block_forever:
  assumes "GenerateEd25519Key e = Inr priv" and "libp2p_New e priv = Inr h"
    and "select_target e (startup h input) = (Proceed, s)"
    and "\<exists>l\<in>set (scanner s). TrimSpace l = ''exit''"
  shows "(\<exists>m out. (\<forall>n\<le>m. main n e input = None)
            \<and> (\<forall>n>m. main n e input = Some (BlocksForever, out @ [Print Exiting])))
    \<and> (\<forall>n out. main n e input \<noteq> Some (Return, out))
    \<and> (\<forall>e' input' n oc out. main n e' input' = Some (oc, out) \<longrightarrow>
          (Print Exiting \<in> set out \<longleftrightarrow> oc = BlocksForever))"
proof -
  from assms(4) obtain pre l rest where
    "scanner s = pre @ l # rest" "\<forall>p\<in>set pre. TrimSpace p \<noteq> ''exit''" "TrimSpace l = ''exit''"
    using exit_line_split [of "scanner s" "\<lambda>l. TrimSpace l = ''exit''"] by blast
  from chat_loop_exits [OF this, of e]
  have none: "\<forall>k\<le>length pre. chat_loop k e s = None"
    and some: "\<forall>k>length pre. chat_loop k e s = Some (Inr (chat_run (Suc (length pre)) e s))"
    by simp_all
  have m: "main n e input =
      (case chat_loop n e s of
         None \<Rightarrow> None
       | Some (Inl s') \<Rightarrow> Some (Panic NilPointerDereference, trace s')
       | Some (Inr s') \<Rightarrow> Some (BlocksForever, trace s' @ [Print Exiting]))" for n
    using main_after_bootstrap [OF assms(1,2), of n input] assms(3) by simp
  have a: "\<forall>n\<le>length pre. main n e input = None"
    using none by (simp add: m)
  have b: "\<forall>n>length pre. main n e input =
      Some (BlocksForever, trace (chat_run (Suc (length pre)) e s) @ [Print Exiting])"
    using some by (simp add: m)
  have c: "main n e input \<noteq> Some (Return, out)" for n out
  proof (cases "n \<le> length pre")
    case True
    with a show ?thesis by simp
  next
    case False
    with b show ?thesis by simp
  qed
  from a b c main_outcome show ?thesis by blast
qed

theorem exit_then_block_forever_witness:
  "main 1 (test_env None None) ['''', ''hi'', '' exit '', ''more''] = None
   \<and> main 2 (test_env None None) ['''', ''hi'', '' exit '', ''more''] =
      Some (BlocksForever,
        [SetStreamHandler ''/chat/1.0.0'', Print PeerStarted, Print (PeerID ''QmSelf''),
         Print (ShareMultiaddr ''/ip4/127.0.0.1/tcp/4001'' ''QmSelf''), Print EnterTarget,
         Print EnterMessage, Print NoPeerConnected, Print EnterMessage, Print Exiting])
   \<and> main 50 (test_env None None) ['''', ''hi'', '' exit '', ''more''] =
      main 2 (test_env None None) ['''', ''hi'', '' exit '', ''more'']"
proof -
  let ?e = "test_env None None"
  let ?h = "\<lparr>host_ID = ''QmSelf'', host_Addrs = [''/ip4/127.0.0.1/tcp/4001'']\<rparr>"
  let ?in = "['''', ''hi'', '' exit '', ''more'']"
  let ?s = "\<lparr>scanner = [''hi'', '' exit '', ''more''], peerInfo = None, opened = 0,
        trace = [SetStreamHandler ''/chat/1.0.0'', Print PeerStarted, Print (PeerID ''QmSelf''),
                 Print (ShareMultiaddr ''/ip4/127.0.0.1/tcp/4001'' ''QmSelf''), Print EnterTarget]\<rparr>"
  have k: "GenerateEd25519Key ?e = Inr ''key''" by (simp add: test_env_def)
  have h: "libp2p_New ?e ''key'' = Inr ?h" by (simp add: test_env_def)
  have sel: "select_target ?e (startup ?h ?in) = (Proceed, ?s)" by code_simp
  have t: "TrimSpace '' exit '' = ''exit''" by code_simp
  have ex: "\<exists>l\<in>set (scanner ?s). TrimSpace l = ''exit''" using t by simp
  have m1: "main 1 ?e ?in = None" by code_simp
  have m2: "main 2 ?e ?in =
      Some (BlocksForever,
        [SetStreamHandler ''/chat/1.0.0'', Print PeerStarted, Print (PeerID ''QmSelf''),
         Print (ShareMultiaddr ''/ip4/127.0.0.1/tcp/4001'' ''QmSelf''), Print EnterTarget,
         Print EnterMessage, Print NoPeerConnected, Print EnterMessage, Print Exiting])"
    by code_simp
  from exit_then_block_forever [OF k h sel ex] obtain m out where
    lo: "\<forall>n\<le>m. main n ?e ?in = None"
    and hi: "\<forall>n>m. main n ?e ?in = Some (BlocksForever, out @ [Print Exiting])"
    by blast
  from lo m2 have "\<not> 2 \<le> m" by auto
  then have "2 > m" "50 > m" by simp_all
  with hi have "main 50 ?e ?in = main 2 ?e ?in" by simp
  with m1 m2 show ?thesis by simp
qed

end
